theory Spec2Isabelle
  imports Complex_Main "HOL-Library.Char_ord" "HOL-Library.List_Lexorder"
begin

section \<open>Data model\<close>

text \<open>
  The dashboard script \<^verbatim>\<open>streamlit_app/app.py\<close> reads one table with
  \<^verbatim>\<open>pd.read_csv\<close> and works on it with pandas. A row of the table is a record of
  typed cells; a cell that is empty in the file is read as a missing value (NaN), which is
  \<open>None\<close> here. Floating-point numbers are modelled by the real numbers they denote, so
  comparisons are exact and arithmetic has no rounding; infinite values are left out. The
  cell types are those of the book record of section 3 of the specification: text for
  \<open>Type\<close>, \<open>Main Genre\<close> and \<open>Author\<close>, numbers for \<open>Rating\<close>, \<open>Price\<close> and
  \<open>No. of People rated\<close>, and a Boolean without gaps for \<open>Price_outlier\<close>. Which columns
  the file has is a property of the table, kept in \<open>columns\<close>: the cells a row carries
  for a column that is not listed there are never read.
\<close>

record book =
  Type :: "string option"
  Main_Genre :: "string option"
  Author :: "string option"
  Rating :: "real option"
  No_of_People_rated :: "int option"
  Price :: "real option"
  Price_outlier :: bool

record dataframe =
  columns :: "string list"
  rows :: "book list"

datatype error = KeyError string

subsection \<open>Column access\<close>

text \<open>
  \<^verbatim>\<open>df[c]\<close> raises \<^verbatim>\<open>KeyError\<close> for a column the frame does not have, and is the
  series of that column's cells, in row order, otherwise. The counts of
  \<open>No. of People rated\<close> are integers in the file; as a numeric series they are the
  numbers they denote (pandas rounds them to float64 when it correlates them).
\<close>

definition str_field :: "string \<Rightarrow> book \<Rightarrow> string option" where
  "str_field c r =
     (if c = ''Type'' then Type r
      else if c = ''Main Genre'' then Main_Genre r
      else if c = ''Author'' then Author r
      else None)"

definition num_field :: "string \<Rightarrow> book \<Rightarrow> real option" where
  "num_field c r =
     (if c = ''Price'' then Price r
      else if c = ''Rating'' then Rating r
      else if c = ''No. of People rated'' then map_option real_of_int (No_of_People_rated r)
      else None)"

definition bool_field :: "string \<Rightarrow> book \<Rightarrow> bool" where
  "bool_field c r = (c = ''Price_outlier'' \<and> Price_outlier r)"

definition getitem_str :: "dataframe \<Rightarrow> string \<Rightarrow> error + string option list" where
  "getitem_str df c =
     (if c \<in> set (columns df) then Inr (map (str_field c) (rows df)) else Inl (KeyError c))"

definition getitem_num :: "dataframe \<Rightarrow> string \<Rightarrow> error + real option list" where
  "getitem_num df c =
     (if c \<in> set (columns df) then Inr (map (num_field c) (rows df)) else Inl (KeyError c))"

definition getitem_bool :: "dataframe \<Rightarrow> string \<Rightarrow> error + bool list" where
  "getitem_bool df c =
     (if c \<in> set (columns df) then Inr (map (bool_field c) (rows df)) else Inl (KeyError c))"

subsection \<open>Series operations\<close>

text \<open>
  \<^verbatim>\<open>s.isin(values)\<close>: a missing cell is in no list of strings.
  \<^verbatim>\<open>s >= x\<close> and \<^verbatim>\<open>s <= x\<close>: every comparison with NaN is false.
\<close>

definition isin :: "string option list \<Rightarrow> string list \<Rightarrow> bool list" where
  "isin s vals = map (\<lambda>v. case v of None \<Rightarrow> False | Some x \<Rightarrow> x \<in> set vals) s"

definition ge_series :: "real option list \<Rightarrow> real \<Rightarrow> bool list" where
  "ge_series s x = map (\<lambda>v. case v of None \<Rightarrow> False | Some y \<Rightarrow> y \<ge> x) s"

definition le_series :: "real option list \<Rightarrow> real \<Rightarrow> bool list" where
  "le_series s x = map (\<lambda>v. case v of None \<Rightarrow> False | Some y \<Rightarrow> y \<le> x) s"

definition and_series :: "bool list \<Rightarrow> bool list \<Rightarrow> bool list" where
  "and_series a b = map (\<lambda>(p, q). p \<and> q) (zip a b)"

definition invert_series :: "bool list \<Rightarrow> bool list" where
  "invert_series a = map Not a"

text \<open>\<^verbatim>\<open>df[mask]\<close>: the rows whose mask entry is true, in the frame's order.\<close>

definition bool_index :: "dataframe \<Rightarrow> bool list \<Rightarrow> dataframe" where
  "bool_index df msk = df\<lparr>rows := map fst (filter snd (zip (rows df) msk))\<rparr>"

section \<open>Filter pipeline (app.py, lines 62-79)\<close>

text \<open>
  The sidebar offers the outlier check box only when the column exists (lines 63-66);
  \<open>checkbox\<close> is what the user ticked.
\<close>

definition sidebar_exclude_outliers :: "dataframe \<Rightarrow> bool \<Rightarrow> bool" where
  "sidebar_exclude_outliers df checkbox =
     (if ''Price_outlier'' \<in> set (columns df) then checkbox else False)"

definition apply_filters ::
  "dataframe \<Rightarrow> string list \<Rightarrow> string list \<Rightarrow> real \<times> real \<Rightarrow> bool \<Rightarrow> error + dataframe" where
  "apply_filters df selected_types selected_genres rating_range exclude_outliers =
     (let filtered_df = df in
      (case getitem_str filtered_df ''Type'' of Inl e \<Rightarrow> Inl e | Inr ty \<Rightarrow>
      (case getitem_str filtered_df ''Main Genre'' of Inl e \<Rightarrow> Inl e | Inr ge \<Rightarrow>
      (case getitem_num filtered_df ''Rating'' of Inl e \<Rightarrow> Inl e | Inr ra \<Rightarrow>
      (let filtered_df = bool_index filtered_df
            (and_series
              (and_series
                (and_series (isin ty selected_types) (isin ge selected_genres))
                (ge_series ra (fst rating_range)))
              (le_series ra (snd rating_range)))
       in if exclude_outliers \<and> ''Price_outlier'' \<in> set (columns df) then
            (case getitem_bool filtered_df ''Price_outlier'' of Inl e \<Rightarrow> Inl e
             | Inr po \<Rightarrow> Inr (bool_index filtered_df (invert_series po)))
          else Inr filtered_df)))))"

text \<open>
  The conjunction of predicates that section 4.1 of the specification asks of a kept row,
  written from its words: both selections by membership, both rating bounds inclusive, and
  the outlier flag only when exclusion is switched on and the table has the column.
\<close>

definition spec_keeps ::
  "dataframe \<Rightarrow> string list \<Rightarrow> string list \<Rightarrow> real \<times> real \<Rightarrow> bool \<Rightarrow> book \<Rightarrow> bool" where
  "spec_keeps df selected_types selected_genres rating_range exclude_outliers r =
     ((case Type r of None \<Rightarrow> False | Some t \<Rightarrow> t \<in> set selected_types) \<and>
      (case Main_Genre r of None \<Rightarrow> False | Some g \<Rightarrow> g \<in> set selected_genres) \<and>
      (case Rating r of None \<Rightarrow> False
       | Some x \<Rightarrow> fst rating_range \<le> x \<and> x \<le> snd rating_range) \<and>
      (if exclude_outliers \<and> ''Price_outlier'' \<in> set (columns df)
       then Price_outlier r = False else True))"

text \<open>The columns the pipeline reads whatever the parameters are (section 6).\<close>

definition has_filter_columns :: "dataframe \<Rightarrow> bool" where
  "has_filter_columns df =
     (''Type'' \<in> set (columns df) \<and> ''Main Genre'' \<in> set (columns df) \<and>
      ''Rating'' \<in> set (columns df))"

section \<open>Aggregations\<close>

subsection \<open>Series reductions\<close>

text \<open>
  pandas reductions skip missing values (\<^verbatim>\<open>skipna=True\<close>) and return NaN when nothing
  is left; the standard deviation has \<^verbatim>\<open>ddof=1\<close> and needs two values; quantiles
  interpolate linearly between the two nearest order statistics.
\<close>

fun dropna :: "'a option list \<Rightarrow> 'a list" where
  "dropna [] = []"
| "dropna (None # xs) = dropna xs"
| "dropna (Some x # xs) = x # dropna xs"

definition series_count :: "'a option list \<Rightarrow> nat" where
  "series_count s = length (dropna s)"

definition series_mean :: "real option list \<Rightarrow> real option" where
  "series_mean s =
     (let xs = dropna s in
      if xs = [] then None else Some (sum_list xs / real (length xs)))"

definition series_std :: "real option list \<Rightarrow> real option" where
  "series_std s =
     (let xs = dropna s in
      if length xs < 2 then None
      else (let m = sum_list xs / real (length xs)
            in Some (sqrt (sum_list (map (\<lambda>x. (x - m)\<^sup>2) xs) / real (length xs - 1)))))"

definition series_min :: "real option list \<Rightarrow> real option" where
  "series_min s = (let xs = dropna s in if xs = [] then None else Some (Min (set xs)))"

definition series_max :: "real option list \<Rightarrow> real option" where
  "series_max s = (let xs = dropna s in if xs = [] then None else Some (Max (set xs)))"

definition series_quantile :: "real option list \<Rightarrow> real \<Rightarrow> real option" where
  "series_quantile s q =
     (let xs = sort (dropna s) in
      if xs = [] then None
      else (let h = real (length xs - 1) * q; i = nat \<lfloor>h\<rfloor>
            in Some (if Suc i < length xs
                     then xs ! i + (h - real i) * (xs ! Suc i - xs ! i)
                     else xs ! i)))"

record describe_result =
  stat_count :: nat
  stat_mean :: "real option"
  stat_std :: "real option"
  stat_min :: "real option"
  stat_25 :: "real option"
  stat_50 :: "real option"
  stat_75 :: "real option"
  stat_max :: "real option"

definition describe :: "real option list \<Rightarrow> describe_result" where
  "describe s =
     \<lparr>stat_count = series_count s, stat_mean = series_mean s, stat_std = series_std s,
      stat_min = series_min s, stat_25 = series_quantile s (1 / 4),
      stat_50 = series_quantile s (1 / 2), stat_75 = series_quantile s (3 / 4),
      stat_max = series_max s\<rparr>"

subsection \<open>Group means (lines 126-130 and 221-225)\<close>

text \<open>\<^verbatim>\<open>s.unique()\<close>: the values of a series in the order in which each first appears.\<close>

fun unique :: "'a list \<Rightarrow> 'a list" where
  "unique [] = []"
| "unique (x # xs) = x # unique (filter (\<lambda>y. y \<noteq> x) xs)"

text \<open>
  The options of a sidebar multiselect and its default (lines 37-50):
  \<^verbatim>\<open>sorted(df[c].dropna().unique())\<close>.
\<close>

definition default_selection :: "dataframe \<Rightarrow> string \<Rightarrow> error + string list" where
  "default_selection df c =
     (case getitem_str df c of Inl e \<Rightarrow> Inl e | Inr s \<Rightarrow> Inr (sort (unique (dropna s))))"

text \<open>
  \<^verbatim>\<open>df.groupby(col, as_index=False)[value_col].mean()\<close>: one entry for each value of
  the grouping column that is not missing, in ascending order of the value
  (\<^verbatim>\<open>sort=True\<close>, \<^verbatim>\<open>dropna=True\<close>), with the mean of the group's cells of the value
  column, missing cells skipped.
\<close>

definition groupby_mean ::
  "dataframe \<Rightarrow> string \<Rightarrow> string \<Rightarrow> error + (string \<times> real option) list" where
  "groupby_mean df col value_col =
     (case getitem_str df col of Inl e \<Rightarrow> Inl e | Inr ks \<Rightarrow>
      (case getitem_num df value_col of Inl e \<Rightarrow> Inl e | Inr vs \<Rightarrow>
         Inr (map (\<lambda>k. (k, series_mean (map snd (filter (\<lambda>(k', v). k' = Some k) (zip ks vs)))))
                (sort (unique (dropna ks))))))"

text \<open>
  \<^verbatim>\<open>.sort_values(value_col, ascending=False)\<close>: the entries with a value in
  non-increasing order of it, then the entries whose value is NaN
  (\<^verbatim>\<open>na_position='last'\<close>). The order pandas gives to entries of equal value depends
  on its sorting routine; here they stay in the order they had.
\<close>

definition sort_values_desc :: "('a \<times> real option) list \<Rightarrow> ('a \<times> real option) list" where
  "sort_values_desc xs =
     sort_key (\<lambda>(k, m). case m of None \<Rightarrow> 0 | Some x \<Rightarrow> - x) (filter (\<lambda>(k, m). m \<noteq> None) xs)
     @ filter (\<lambda>(k, m). m = None) xs"

definition mean_by_group ::
  "dataframe \<Rightarrow> string \<Rightarrow> string \<Rightarrow> error + (string \<times> real option) list" where
  "mean_by_group df col value_col =
     (case groupby_mean df col value_col of Inl e \<Rightarrow> Inl e
      | Inr g \<Rightarrow> Inr (sort_values_desc g))"

text \<open>The rows of a group: those whose grouping cell is exactly the label.\<close>

definition group_rows :: "dataframe \<Rightarrow> string \<Rightarrow> string \<Rightarrow> book list" where
  "group_rows df col g = filter (\<lambda>r. str_field col r = Some g) (rows df)"

subsection \<open>Value counts (lines 195-199)\<close>

text \<open>
  Modelled from the spec: the order pandas' \<^verbatim>\<open>Series.value_counts\<close> gives to values
  of equal count is decided by the library's sorting routine, which is not part of the
  repository. Section 4.2 of the specification states it: descending by count, ties
  broken by first-encountered order. The rest is the documented behaviour: missing values
  are not counted, each other value is listed once with the number of its occurrences.
\<close>

definition value_counts :: "'a option list \<Rightarrow> ('a \<times> nat) list" where
  "value_counts s =
     (let xs = dropna s
      in sort_key (\<lambda>(k, c). - int c) (map (\<lambda>k. (k, count_list xs k)) (unique xs)))"

text \<open>The position at which a value first occurs in a series.\<close>

definition first_index :: "'a list \<Rightarrow> 'a \<Rightarrow> nat" where
  "first_index xs x = length (takeWhile (\<lambda>y. y \<noteq> x) xs)"

definition head :: "nat \<Rightarrow> 'a list \<Rightarrow> 'a list" where
  "head n xs = take n xs"

definition top_value_counts :: "dataframe \<Rightarrow> string \<Rightarrow> nat \<Rightarrow> error + (string \<times> nat) list" where
  "top_value_counts df col n =
     (case getitem_str df col of Inl e \<Rightarrow> Inl e | Inr s \<Rightarrow> Inr (head n (value_counts s)))"

subsection \<open>Correlation matrix (line 254)\<close>

text \<open>
  \<^verbatim>\<open>DataFrame.corr()\<close>: for each pair of columns, Pearson's coefficient over the rows in
  which both cells are present (\<^verbatim>\<open>min_periods=1\<close>); NaN when no such row exists or when
  the divisor is zero. pandas accumulates the sums in float64; \<open>pearson\<close> is the same
  quotient in exact arithmetic, and \<open>num_field\<close> takes a count to the real number it
  is, where pandas takes it to the nearest float64. Rounding can merge two different
  values and can turn a small deviation sum into zero, never the reverse, and the library
  fills the entries for \<open>(a, b)\<close> and \<open>(b, a)\<close> with one value. So what is proved of the
  matrix below is only what holds of both: its labels, its symmetry, and NaN where a
  column does not vary. The value of an entry that is a number is not used.
\<close>

fun complete_pairs :: "real option list \<Rightarrow> real option list \<Rightarrow> (real \<times> real) list" where
  "complete_pairs (Some x # xs) (Some y # ys) = (x, y) # complete_pairs xs ys"
| "complete_pairs (_ # xs) (_ # ys) = complete_pairs xs ys"
| "complete_pairs _ _ = []"

definition pearson :: "real option list \<Rightarrow> real option list \<Rightarrow> real option" where
  "pearson a b =
     (let ps = complete_pairs a b; n = real (length ps) in
      if ps = [] then None
      else (let mx = sum_list (map fst ps) / n;
                my = sum_list (map snd ps) / n;
                ssx = sum_list (map (\<lambda>(x, y). (x - mx)\<^sup>2) ps);
                ssy = sum_list (map (\<lambda>(x, y). (y - my)\<^sup>2) ps);
                cxy = sum_list (map (\<lambda>(x, y). (x - mx) * (y - my)) ps);
                divisor = sqrt (ssx * ssy)
            in if divisor \<noteq> 0 then Some (cxy / divisor) else None))"


type_synonym matrix = "(string \<times> (string \<times> real option) list) list"

text \<open>\<^verbatim>\<open>df[cols]\<close> with a list of names: the frame restricted to these columns.\<close>

definition getitem_cols :: "dataframe \<Rightarrow> string list \<Rightarrow> error + dataframe" where
  "getitem_cols df cols =
     (case filter (\<lambda>c. c \<notin> set (columns df)) cols of
        [] \<Rightarrow> Inr (df\<lparr>columns := cols\<rparr>)
      | c # _ \<Rightarrow> Inl (KeyError c))"

definition corr :: "dataframe \<Rightarrow> matrix" where
  "corr df =
     map (\<lambda>a. (a, map (\<lambda>b. (b, pearson (map (num_field a) (rows df))
                                        (map (num_field b) (rows df))))
                    (columns df)))
       (columns df)"

definition correlation_matrix :: "dataframe \<Rightarrow> string list \<Rightarrow> error + matrix" where
  "correlation_matrix df cols =
     (case getitem_cols df cols of Inl e \<Rightarrow> Inl e | Inr d \<Rightarrow> Inr (corr d))"


section \<open>What the tabs show\<close>

text \<open>
  What a tab hands to the presentation layer, in order. Headings, rules and the
  histograms and scatter plots, which are drawn whatever the view holds, are left out.
\<close>

datatype figure =
    Barplot_means string "(string \<times> real option) list"
  | Barplot_counts string "(string \<times> nat) list"
  | Heatmap string matrix

datatype element =
    Info string
  | Write_text string
  | Write_describe describe_result
  | Pyplot figure
  | Dataframe_means "(string \<times> real option) list"
  | Dataframe_counts "(string \<times> nat) list"
  | Dataframe_corr matrix

definition no_data :: string where
  "no_data = ''No data available with the current filters.''"

definition not_enough_columns :: string where
  "not_enough_columns = ''Not enough numeric columns to compute correlations.''"

text \<open>\<^verbatim>\<open>DataFrame.empty\<close>: some axis has length 0.\<close>

definition df_empty :: "dataframe \<Rightarrow> bool" where
  "df_empty df = (columns df = [] \<or> rows df = [])"

text \<open>Overview tab, line 107.\<close>

definition price_summary :: "dataframe \<Rightarrow> error + element list" where
  "price_summary filtered_df =
     (case getitem_num filtered_df ''Price'' of Inl e \<Rightarrow> Inl e
      | Inr p \<Rightarrow> Inr [Write_describe (describe p)])"

text \<open>Price tab, lines 125-141.\<close>

definition average_price_by_type :: "dataframe \<Rightarrow> error + element list" where
  "average_price_by_type filtered_df =
     (if \<not> df_empty filtered_df then
        (case mean_by_group filtered_df ''Type'' ''Price'' of Inl e \<Rightarrow> Inl e
         | Inr avg_price_type \<Rightarrow>
             Inr [Pyplot (Barplot_means ''Average Book Price by Type'' avg_price_type),
                  Write_text ''**Average price by Type (table):**'',
                  Dataframe_means avg_price_type])
      else Inr [Info no_data])"

text \<open>Authors tab, lines 194-215.\<close>

definition top_authors :: "dataframe \<Rightarrow> error + element list" where
  "top_authors filtered_df =
     (if \<not> df_empty filtered_df then
        (case top_value_counts filtered_df ''Author'' 10 of Inl e \<Rightarrow> Inl e
         | Inr author_counts \<Rightarrow>
             Inr [Pyplot (Barplot_counts ''Top 10 Authors by Book Count'' author_counts),
                  Write_text ''**Top 10 authors (table):**'',
                  Dataframe_counts author_counts])
      else Inr [Info no_data])"

text \<open>Authors tab, lines 220-242.\<close>

definition average_rating_by_genre :: "dataframe \<Rightarrow> error + element list" where
  "average_rating_by_genre filtered_df =
     (if \<not> df_empty filtered_df then
        (case mean_by_group filtered_df ''Main Genre'' ''Rating'' of Inl e \<Rightarrow> Inl e
         | Inr avg_rating_genre \<Rightarrow>
             Inr [Pyplot (Barplot_means ''Average Rating by Main Genre'' avg_rating_genre),
                  Write_text ''**Average Rating by Main Genre (table):**'',
                  Dataframe_means avg_rating_genre])
      else Inr [Info no_data])"

text \<open>Correlation tab, lines 250-264.\<close>

definition numeric_cols :: "string list" where
  "numeric_cols = [''Price'', ''Rating'', ''No. of People rated'']"

definition existing_numeric :: "dataframe \<Rightarrow> string list" where
  "existing_numeric filtered_df = filter (\<lambda>c. c \<in> set (columns filtered_df)) numeric_cols"

definition correlation_tab :: "dataframe \<Rightarrow> error + element list" where
  "correlation_tab filtered_df =
     (if length (existing_numeric filtered_df) \<ge> 2 then
        (case correlation_matrix filtered_df (existing_numeric filtered_df) of Inl e \<Rightarrow> Inl e
         | Inr c \<Rightarrow>
             Inr [Pyplot (Heatmap ''Correlation Heatmap'' c),
                  Write_text ''**Correlation Matrix (table):**'',
                  Dataframe_corr c])
      else Inr [Info not_enough_columns])"

section \<open>Example tables\<close>

text \<open>
  The table of section 8 of the specification: five rows of types Fiction, Fiction,
  Nonfiction, Fiction, Nonfiction with ratings 4.0, 4.5, 3.0, 5.0, 2.0; the other cells
  are filled in. \<open>books5\<close> has the outlier column, \<open>books5_plain\<close> has not.
\<close>

definition book1 :: book where
  "book1 = \<lparr>Type = Some ''Fiction'', Main_Genre = Some ''Arts'', Author = Some ''Ann'',
            Rating = Some 4, No_of_People_rated = Some 100, Price = Some 10,
            Price_outlier = False\<rparr>"

definition book2 :: book where
  "book2 = \<lparr>Type = Some ''Fiction'', Main_Genre = Some ''Arts'', Author = Some ''Bob'',
            Rating = Some (9 / 2), No_of_People_rated = Some 200, Price = Some 20,
            Price_outlier = False\<rparr>"

definition book3 :: book where
  "book3 = \<lparr>Type = Some ''Nonfiction'', Main_Genre = Some ''Law'', Author = Some ''Ann'',
            Rating = Some 3, No_of_People_rated = Some 50, Price = Some 30,
            Price_outlier = True\<rparr>"

definition book4 :: book where
  "book4 = \<lparr>Type = Some ''Fiction'', Main_Genre = Some ''Law'', Author = Some ''Cy'',
            Rating = Some 5, No_of_People_rated = Some 10, Price = Some 40,
            Price_outlier = False\<rparr>"

definition book5 :: book where
  "book5 = \<lparr>Type = Some ''Nonfiction'', Main_Genre = Some ''Arts'', Author = Some ''Bob'',
            Rating = Some 2, No_of_People_rated = Some 5, Price = Some 50,
            Price_outlier = False\<rparr>"

definition plain_columns :: "string list" where
  "plain_columns =
     [''Type'', ''Main Genre'', ''Author'', ''Rating'', ''No. of People rated'', ''Price'']"

definition books5 :: dataframe where
  "books5 = \<lparr>columns = plain_columns @ [''Price_outlier''],
             rows = [book1, book2, book3, book4, book5]\<rparr>"

definition books5_plain :: dataframe where
  "books5_plain = \<lparr>columns = plain_columns, rows = [book1, book2, book3, book4, book5]\<rparr>"

text \<open>Rows with an empty cell, as \<^verbatim>\<open>read_csv\<close> delivers them.\<close>

definition no_type :: book where
  "no_type = book1\<lparr>Type := None\<rparr>"

definition no_genre :: book where
  "no_genre = book2\<lparr>Main_Genre := None\<rparr>"

definition no_rating :: book where
  "no_rating = book4\<lparr>Rating := None\<rparr>"

definition books_gaps :: dataframe where
  "books_gaps = \<lparr>columns = plain_columns, rows = [no_type, book2, no_genre, no_rating, book4]\<rparr>"

text \<open>A table with a single numeric column, and the view no row of \<open>books5\<close> passes.\<close>

definition books_one_numeric :: dataframe where
  "books_one_numeric = \<lparr>columns = [''Type'', ''Main Genre'', ''Rating''], rows = [book1, book2]\<rparr>"

definition empty_view :: dataframe where
  "empty_view = books5\<lparr>rows := []\<rparr>"

definition nan_row :: "(string \<times> real option) list" where
  "nan_row = [(''Price'', None), (''Rating'', None), (''No. of People rated'', None)]"

definition nan_matrix :: matrix where
  "nan_matrix = [(''Price'', nan_row), (''Rating'', nan_row), (''No. of People rated'', nan_row)]"

text \<open>A view in which two prices are missing, and a view of a single row.\<close>

definition books_price_gaps :: dataframe where
  "books_price_gaps =
     \<lparr>columns = plain_columns, rows = [book1, book2\<lparr>Price := None\<rparr>, book3\<lparr>Price := None\<rparr>]\<rparr>"



section \<open>Facts about series and masks\<close>

lemma bool_index_map: "bool_index df (map P (rows df)) = df\<lparr>rows := filter P (rows df)\<rparr>"
proof -
  have "map fst (filter snd (zip xs (map P xs))) = filter P xs" for xs :: "book list"
    by (induction xs) simp_all
  then show ?thesis by (simp add: bool_index_def)
qed

lemma and_series_map: "and_series (map P xs) (map Q xs) = map (\<lambda>x. P x \<and> Q x) xs"
  by (induction xs) (simp_all add: and_series_def)

lemma isin_map:
  "isin (map f xs) vals = map (\<lambda>r. case f r of None \<Rightarrow> False | Some t \<Rightarrow> t \<in> set vals) xs"
  by (simp add: isin_def)

lemma ge_series_map:
  "ge_series (map f xs) lo = map (\<lambda>r. case f r of None \<Rightarrow> False | Some x \<Rightarrow> lo \<le> x) xs"
  by (simp add: ge_series_def)

lemma le_series_map:
  "le_series (map f xs) hi = map (\<lambda>r. case f r of None \<Rightarrow> False | Some x \<Rightarrow> x \<le> hi) xs"
  by (simp add: le_series_def)

lemma invert_series_map: "invert_series (map f xs) = map (\<lambda>r. \<not> f r) xs"
  by (simp add: invert_series_def)

lemma apply_filters_eq:
  assumes "has_filter_columns df"
  shows "apply_filters df ts gs rr ex =
           Inr (df\<lparr>rows := filter (spec_keeps df ts gs rr ex) (rows df)\<rparr>)"
proof -
  let ?P = "\<lambda>r. (case Type r of None \<Rightarrow> False | Some t \<Rightarrow> t \<in> set ts) \<and>
                 (case Main_Genre r of None \<Rightarrow> False | Some g \<Rightarrow> g \<in> set gs) \<and>
                 (case Rating r of None \<Rightarrow> False | Some x \<Rightarrow> fst rr \<le> x \<and> x \<le> snd rr)"
  have cols: "''Type'' \<in> set (columns df)" "''Main Genre'' \<in> set (columns df)"
    "''Rating'' \<in> set (columns df)"
    using assms by (simp_all add: has_filter_columns_def)
  have fields: "str_field ''Type'' = Type" "str_field ''Main Genre'' = Main_Genre"
    "num_field ''Rating'' = Rating" "bool_field ''Price_outlier'' = Price_outlier"
    by (simp_all add: fun_eq_iff str_field_def num_field_def bool_field_def)
  have msk: "and_series (and_series (and_series (isin (map Type (rows df)) ts)
               (isin (map Main_Genre (rows df)) gs)) (ge_series (map Rating (rows df)) (fst rr)))
               (le_series (map Rating (rows df)) (snd rr)) = map ?P (rows df)"
    by (simp add: isin_map ge_series_map le_series_map and_series_map)
      (auto split: option.splits)
  have first: "bool_index df (map ?P (rows df)) = df\<lparr>rows := filter ?P (rows df)\<rparr>"
    by (rule bool_index_map)
  show ?thesis
  proof (cases "ex \<and> ''Price_outlier'' \<in> set (columns df)")
    case False
    have "filter (spec_keeps df ts gs rr ex) (rows df) = filter ?P (rows df)"
      using False by (auto simp: spec_keeps_def intro!: filter_cong)
    then show ?thesis
      using False cols
      by (auto simp add: apply_filters_def Let_def getitem_str_def getitem_num_def fields msk first)
  next
    case True
    let ?v = "df\<lparr>rows := filter ?P (rows df)\<rparr>"
    have second: "bool_index ?v (invert_series (map Price_outlier (rows ?v)))
                    = ?v\<lparr>rows := filter (\<lambda>r. \<not> Price_outlier r) (rows ?v)\<rparr>"
      by (simp only: invert_series_map bool_index_map)
    have "filter (spec_keeps df ts gs rr ex) (rows df)
            = filter (\<lambda>r. \<not> Price_outlier r) (filter ?P (rows df))"
      using True by (auto simp: spec_keeps_def intro!: filter_cong)
    then show ?thesis
      using True cols second
      by (simp add: apply_filters_def Let_def getitem_str_def getitem_num_def getitem_bool_def
            fields msk first)
  qed
qed

lemma apply_filters_missing_column:
  assumes "\<not> has_filter_columns df"
  shows "\<exists>c. apply_filters df ts gs rr ex = Inl (KeyError c)"
  using assms
  by (auto simp: has_filter_columns_def apply_filters_def Let_def getitem_str_def
        getitem_num_def)

lemma apply_filters_columns:
  assumes "apply_filters df ts gs rr ex = Inr v"
  shows "has_filter_columns df"
proof (rule ccontr)
  assume "\<not> has_filter_columns df"
  then have "\<exists>c. apply_filters df ts gs rr ex = Inl (KeyError c)"
    by (rule apply_filters_missing_column)
  with assms show False by auto
qed

text \<open>
  The sidebar reads the three columns before the pipeline runs (lines 37, 45 and 53), so
  a table for which the script gets as far as the pipeline has them.
\<close>

lemma sidebar_reads_filter_columns:
  assumes "default_selection df ''Type'' = Inr types"
    and "default_selection df ''Main Genre'' = Inr genres"
    and "getitem_num df ''Rating'' = Inr ratings"
  shows "has_filter_columns df"
  using assms
  by (auto simp: has_filter_columns_def default_selection_def getitem_str_def getitem_num_def
        split: if_splits)

lemma example_facts:
  "has_filter_columns books5" "has_filter_columns books5_plain" "has_filter_columns books_gaps"
  "''Price_outlier'' \<in> set (columns books5)"
  "''Price_outlier'' \<notin> set (columns books5_plain)"
  "''Price_outlier'' \<notin> set (columns books_gaps)"
  by (simp_all add: has_filter_columns_def books5_def books5_plain_def books_gaps_def
        plain_columns_def)

lemma example_rows:
  "rows books5 = [book1, book2, book3, book4, book5]"
  "rows books5_plain = [book1, book2, book3, book4, book5]"
  "rows books_gaps = [no_type, book2, no_genre, no_rating, book4]"
  by (simp_all add: books5_def books5_plain_def books_gaps_def)

lemmas book_defs = book1_def book2_def book3_def book4_def book5_def
  no_type_def no_genre_def no_rating_def

section \<open>The filtered view\<close>

text \<open>
  Claim C1. For a table that has the columns the pipeline reads, and for every choice of
  \<open>selected_types\<close>, \<open>selected_genres\<close>, rating range \<open>(lo, hi)\<close> and
  \<open>exclude_outliers\<close>, the pipeline raises no error and returns the table with exactly
  the rows \<open>r\<close> for which the type is one of the selected types, the main genre one of the
  selected genres, \<open>lo \<le> Rating r \<le> hi\<close> with both bounds included, and, when exclusion
  is on and the outlier column exists, the outlier flag is false. \<open>filter\<close> keeps the
  rows in the order of the table; the columns are unchanged.
\<close>

theorem filtered_view_exact:
  assumes "has_filter_columns df"
  shows "\<exists>v. apply_filters df selected_types selected_genres (lo, hi) exclude_outliers = Inr v
           \<and> columns v = columns df
           \<and> rows v = filter (\<lambda>r.
                 (case Type r of None \<Rightarrow> False | Some t \<Rightarrow> t \<in> set selected_types) \<and>
                 (case Main_Genre r of None \<Rightarrow> False | Some g \<Rightarrow> g \<in> set selected_genres) \<and>
                 (case Rating r of None \<Rightarrow> False | Some x \<Rightarrow> lo \<le> x \<and> x \<le> hi) \<and>
                 (if exclude_outliers \<and> ''Price_outlier'' \<in> set (columns df)
                  then Price_outlier r = False else True)) (rows df)"
proof -
  have "spec_keeps df selected_types selected_genres (lo, hi) exclude_outliers =
          (\<lambda>r. (case Type r of None \<Rightarrow> False | Some t \<Rightarrow> t \<in> set selected_types) \<and>
               (case Main_Genre r of None \<Rightarrow> False | Some g \<Rightarrow> g \<in> set selected_genres) \<and>
               (case Rating r of None \<Rightarrow> False | Some x \<Rightarrow> lo \<le> x \<and> x \<le> hi) \<and>
               (if exclude_outliers \<and> ''Price_outlier'' \<in> set (columns df)
                then Price_outlier r = False else True))"
    by (simp add: spec_keeps_def fun_eq_iff split: option.split)
  then show ?thesis
    using apply_filters_eq [OF assms, of selected_types selected_genres "(lo, hi)" exclude_outliers]
    by simp
qed

theorem filtered_view_exact_witness:
  "has_filter_columns books5 \<and>
   (\<exists>v. apply_filters books5 [''Fiction''] [''Arts'', ''Law''] (4, 5) True = Inr v
        \<and> columns v = columns books5 \<and> rows v = [book1, book2, book4])"
  using filtered_view_exact [of books5 "[''Fiction'']" "[''Arts'', ''Law'']" 4 5 True]
  by (simp add: example_facts example_rows book_defs)

text \<open>
  Claim C7. Filtering is idempotent: whenever the pipeline returns a view, running it on
  that view with the same parameters returns the same view. (By C1 it returns a view for
  every table that has the three columns it reads.)
\<close>

theorem filter_idempotent:
  assumes "apply_filters df selected_types selected_genres rating_range exclude_outliers = Inr v"
  shows "apply_filters v selected_types selected_genres rating_range exclude_outliers = Inr v"
proof -
  let ?K = "\<lambda>d. spec_keeps d selected_types selected_genres rating_range exclude_outliers"
  have cols: "has_filter_columns df"
    using assms by (rule apply_filters_columns)
  then have v: "v = df\<lparr>rows := filter (?K df) (rows df)\<rparr>"
    using assms by (simp add: apply_filters_eq)
  have same_columns: "columns v = columns df"
    by (simp add: v)
  then have "has_filter_columns v"
    using cols by (simp add: has_filter_columns_def)
  then have "apply_filters v selected_types selected_genres rating_range exclude_outliers
               = Inr (v\<lparr>rows := filter (?K v) (rows v)\<rparr>)"
    by (rule apply_filters_eq)
  moreover have "?K v = ?K df"
    using same_columns by (simp add: spec_keeps_def fun_eq_iff)
  moreover have "filter (?K df) (rows v) = rows v"
    by (simp add: v)
  ultimately show ?thesis by simp
qed

theorem filter_idempotent_witness:
  "apply_filters books5 [''Fiction''] [''Arts'', ''Law''] (4, 5) True
     = Inr (books5\<lparr>rows := [book1, book2, book4]\<rparr>) \<and>
   apply_filters (books5\<lparr>rows := [book1, book2, book4]\<rparr>) [''Fiction''] [''Arts'', ''Law''] (4, 5) True
     = Inr (books5\<lparr>rows := [book1, book2, book4]\<rparr>)"
proof -
  have first: "apply_filters books5 [''Fiction''] [''Arts'', ''Law''] (4, 5) True
                 = Inr (books5\<lparr>rows := [book1, book2, book4]\<rparr>)"
    by (simp add: apply_filters_eq example_facts example_rows spec_keeps_def book_defs)
  from filter_idempotent [OF first] first show ?thesis by simp
qed

text \<open>
  Claim C8. When no type is selected, or no main genre, the filtered view has no rows,
  whatever the rating range and the outlier switch are, and no error is raised.
\<close>

theorem empty_selection_empty_view:
  assumes "has_filter_columns df"
    and "selected_types = [] \<or> selected_genres = []"
  shows "apply_filters df selected_types selected_genres rating_range exclude_outliers
           = Inr (df\<lparr>rows := []\<rparr>)"
proof -
  have "\<not> spec_keeps df selected_types selected_genres rating_range exclude_outliers r" for r
    using assms(2) by (auto simp: spec_keeps_def split: option.splits)
  then have "filter (spec_keeps df selected_types selected_genres rating_range exclude_outliers)
               (rows df) = []"
    by simp
  then show ?thesis
    using apply_filters_eq [OF assms(1)] by simp
qed

theorem empty_selection_empty_view_witness:
  "has_filter_columns books5 \<and> ([''Fiction''] = [] \<or> ([] :: string list) = []) \<and>
   apply_filters books5 [''Fiction''] [] (2, 5) True = Inr (books5\<lparr>rows := []\<rparr>)"
  using empty_selection_empty_view [of books5 "[''Fiction'']" "[]" "(2, 5)" True]
  by (simp add: example_facts)

text \<open>
  Claim C9. For a table without the \<open>Price_outlier\<close> column the outlier step does
  nothing: for either value of \<open>exclude_outliers\<close> the pipeline raises no error and
  returns the rows kept by the other three predicates alone, and the sidebar sets the
  parameter to false whatever the user ticked.
\<close>

theorem no_outlier_column_noop:
  assumes "has_filter_columns df"
    and "''Price_outlier'' \<notin> set (columns df)"
  shows "apply_filters df selected_types selected_genres (lo, hi) exclude_outliers
           = Inr (df\<lparr>rows := filter (\<lambda>r.
                 (case Type r of None \<Rightarrow> False | Some t \<Rightarrow> t \<in> set selected_types) \<and>
                 (case Main_Genre r of None \<Rightarrow> False | Some g \<Rightarrow> g \<in> set selected_genres) \<and>
                 (case Rating r of None \<Rightarrow> False | Some x \<Rightarrow> lo \<le> x \<and> x \<le> hi)) (rows df)\<rparr>)
         \<and> apply_filters df selected_types selected_genres (lo, hi) exclude_outliers
           = apply_filters df selected_types selected_genres (lo, hi) False
         \<and> sidebar_exclude_outliers df checkbox = False"
proof -
  have "spec_keeps df selected_types selected_genres (lo, hi) b =
          (\<lambda>r. (case Type r of None \<Rightarrow> False | Some t \<Rightarrow> t \<in> set selected_types) \<and>
               (case Main_Genre r of None \<Rightarrow> False | Some g \<Rightarrow> g \<in> set selected_genres) \<and>
               (case Rating r of None \<Rightarrow> False | Some x \<Rightarrow> lo \<le> x \<and> x \<le> hi))" for b
    using assms(2) by (simp add: spec_keeps_def fun_eq_iff split: option.split)
  then show ?thesis
    using assms(2) by (simp add: apply_filters_eq [OF assms(1)] sidebar_exclude_outliers_def)
qed

theorem no_outlier_column_noop_witness:
  "has_filter_columns books5_plain \<and> ''Price_outlier'' \<notin> set (columns books5_plain) \<and>
   apply_filters books5_plain [''Nonfiction''] [''Arts'', ''Law''] (2, 5) True
     = Inr (books5_plain\<lparr>rows := [book3, book5]\<rparr>) \<and>
   apply_filters books5_plain [''Nonfiction''] [''Arts'', ''Law''] (2, 5) True
     = apply_filters books5_plain [''Nonfiction''] [''Arts'', ''Law''] (2, 5) False \<and>
   sidebar_exclude_outliers books5_plain True = False"
  using no_outlier_column_noop [of books5_plain "[''Nonfiction'']" "[''Arts'', ''Law'']" 2 5 True True]
  by (simp add: apply_filters_eq example_facts example_rows spec_keeps_def book_defs)

text \<open>
  Claim C10. The filtered view never holds a row whose \<open>Type\<close>, \<open>Main Genre\<close> or
  \<open>Rating\<close> cell is missing: a missing cell is in no selection, and a missing rating
  passes neither rating bound. The table itself keeps such rows.
\<close>

theorem missing_cells_excluded:
  assumes "has_filter_columns df"
  shows "(\<exists>v. apply_filters df selected_types selected_genres rating_range exclude_outliers = Inr v
            \<and> (\<forall>r \<in> set (rows v). Type r \<noteq> None \<and> Main_Genre r \<noteq> None \<and> Rating r \<noteq> None))
         \<and> isin [None] selected_types = [False]
         \<and> ge_series [None] (fst rating_range) = [False]
         \<and> le_series [None] (snd rating_range) = [False]"
proof -
  have "Type r \<noteq> None \<and> Main_Genre r \<noteq> None \<and> Rating r \<noteq> None"
    if "spec_keeps df selected_types selected_genres rating_range exclude_outliers r" for r
    using that by (auto simp: spec_keeps_def split: option.splits)
  then show ?thesis
    by (simp add: apply_filters_eq [OF assms] isin_def ge_series_def le_series_def)
qed

theorem missing_cells_excluded_witness:
  "has_filter_columns books_gaps \<and>
   (\<exists>v. apply_filters books_gaps [''Fiction'', ''Nonfiction''] [''Arts'', ''Law''] (0, 5) False = Inr v
        \<and> rows v = [book2, book4]) \<and>
   rows books_gaps = [no_type, book2, no_genre, no_rating, book4] \<and>
   isin [None] [''Fiction'', ''Nonfiction''] = [False]"
  using missing_cells_excluded [of books_gaps "[''Fiction'', ''Nonfiction'']" "[''Arts'', ''Law'']" "(0, 5)" False]
  by (simp add: apply_filters_eq example_facts example_rows spec_keeps_def book_defs isin_def)

section \<open>The correlation tab\<close>

lemma existing_numeric_in_columns: "set (existing_numeric fv) \<subseteq> set (columns fv)"
  by (auto simp: existing_numeric_def)

lemma correlation_matrix_existing:
  "correlation_matrix fv (existing_numeric fv) = Inr (corr (fv\<lparr>columns := existing_numeric fv\<rparr>))"
proof -
  have "filter (\<lambda>c. c \<notin> set (columns fv)) (existing_numeric fv) = []"
    by (simp add: existing_numeric_def)
  then show ?thesis
    by (simp add: correlation_matrix_def getitem_cols_def)
qed

lemma corr_labels:
  "map fst (corr d) = columns d" "\<forall>row \<in> set (corr d). map fst (snd row) = columns d"
  by (simp_all add: corr_def comp_def)

text \<open>
  Claim C5. The correlation is computed over exactly those of \<open>Price\<close>, \<open>Rating\<close>,
  \<open>No. of People rated\<close> that are columns of the view, in this order. With fewer than
  two of them the tab shows the message \<open>not_enough_columns\<close> and no matrix; with two or
  more it shows the matrix and raises no error. The message differs from the \<open>no_data\<close>
  message of the other tabs, and whether it is shown depends on the columns alone: a view
  without rows gets it exactly when the columns are too few.
\<close>

theorem correlation_tab_columns:
  "existing_numeric fv
     = filter (\<lambda>c. c \<in> set (columns fv)) [''Price'', ''Rating'', ''No. of People rated'']
   \<and> (length (existing_numeric fv) < 2 \<longrightarrow> correlation_tab fv = Inr [Info not_enough_columns])
   \<and> (2 \<le> length (existing_numeric fv) \<longrightarrow>
        (\<exists>c. correlation_tab fv = Inr [Pyplot (Heatmap ''Correlation Heatmap'' c),
                                       Write_text ''**Correlation Matrix (table):**'',
                                       Dataframe_corr c]
           \<and> map fst c = existing_numeric fv
           \<and> (\<forall>row \<in> set c. map fst (snd row) = existing_numeric fv)))
   \<and> not_enough_columns \<noteq> no_data
   \<and> (correlation_tab (fv\<lparr>rows := []\<rparr>) = Inr [Info not_enough_columns]
        \<longleftrightarrow> length (existing_numeric fv) < 2)"
proof -
  have few: "correlation_tab d = Inr [Info not_enough_columns]"
    if "length (existing_numeric d) < 2" for d
    using that by (simp add: correlation_tab_def)
  have enough: "correlation_tab d
        = Inr [Pyplot (Heatmap ''Correlation Heatmap'' (corr (d\<lparr>columns := existing_numeric d\<rparr>))),
               Write_text ''**Correlation Matrix (table):**'',
               Dataframe_corr (corr (d\<lparr>columns := existing_numeric d\<rparr>))]"
    if "2 \<le> length (existing_numeric d)" for d
    using that by (simp add: correlation_tab_def correlation_matrix_existing)
  have rows_irrelevant: "existing_numeric (fv\<lparr>rows := []\<rparr>) = existing_numeric fv"
    by (simp add: existing_numeric_def)
  have "correlation_tab (fv\<lparr>rows := []\<rparr>) = Inr [Info not_enough_columns]
          \<longleftrightarrow> length (existing_numeric fv) < 2"
  proof (cases "length (existing_numeric fv) < 2")
    case True
    then show ?thesis using few [of "fv\<lparr>rows := []\<rparr>"] rows_irrelevant by simp
  next
    case False
    then show ?thesis using enough [of "fv\<lparr>rows := []\<rparr>"] rows_irrelevant by simp
  qed
  moreover have "not_enough_columns \<noteq> no_data"
    by (simp add: not_enough_columns_def no_data_def)
  moreover have "2 \<le> length (existing_numeric fv) \<longrightarrow>
        (\<exists>c. correlation_tab fv = Inr [Pyplot (Heatmap ''Correlation Heatmap'' c),
                                       Write_text ''**Correlation Matrix (table):**'',
                                       Dataframe_corr c]
           \<and> map fst c = existing_numeric fv
           \<and> (\<forall>row \<in> set c. map fst (snd row) = existing_numeric fv))"
    using enough [of fv] corr_labels [of "fv\<lparr>columns := existing_numeric fv\<rparr>"] by simp
  ultimately show ?thesis
    using few [of fv] by (simp add: existing_numeric_def numeric_cols_def)
qed

theorem correlation_tab_columns_witness:
  "existing_numeric books_one_numeric = [''Rating''] \<and>
   length (existing_numeric books_one_numeric) < 2 \<and>
   correlation_tab books_one_numeric = Inr [Info not_enough_columns] \<and>
   correlation_tab (books_one_numeric\<lparr>rows := []\<rparr>) = Inr [Info not_enough_columns] \<and>
   2 \<le> length (existing_numeric books5) \<and>
   correlation_tab (books5\<lparr>rows := []\<rparr>) \<noteq> Inr [Info not_enough_columns]"
  using correlation_tab_columns [of books_one_numeric] correlation_tab_columns [of books5]
  by (simp add: books_one_numeric_def books5_def plain_columns_def)

section \<open>Aggregations of an empty view\<close>

lemma empty_view_facts:
  "rows empty_view = []" "columns empty_view = plain_columns @ [''Price_outlier'']"
  by (simp_all add: empty_view_def books5_def)

text \<open>
  Claim C2. With no genre selected the view of \<open>books5\<close> has no rows. The three
  sections guarded by \<^verbatim>\<open>if not filtered_df.empty\<close> (average price by type, top
  authors, average rating by genre) then show the \<open>no_data\<close> message. The price summary
  of line 107 and the correlation tab have no such guard: the first writes the statistics
  of nothing (count 0, every other statistic NaN), the second draws and writes a matrix
  of NaN. No section raises an error.
\<close>

theorem empty_view_outputs:
  "apply_filters books5 [''Fiction'', ''Nonfiction''] [] (2, 5) False = Inr empty_view \<and>
   df_empty empty_view \<and>
   average_price_by_type empty_view = Inr [Info no_data] \<and>
   top_authors empty_view = Inr [Info no_data] \<and>
   average_rating_by_genre empty_view = Inr [Info no_data] \<and>
   price_summary empty_view =
     Inr [Write_describe \<lparr>stat_count = 0, stat_mean = None, stat_std = None, stat_min = None,
            stat_25 = None, stat_50 = None, stat_75 = None, stat_max = None\<rparr>] \<and>
   correlation_tab empty_view =
     Inr [Pyplot (Heatmap ''Correlation Heatmap'' nan_matrix),
          Write_text ''**Correlation Matrix (table):**'', Dataframe_corr nan_matrix]"
proof -
  have view: "apply_filters books5 [''Fiction'', ''Nonfiction''] [] (2, 5) False = Inr empty_view"
    by (simp add: apply_filters_eq example_facts example_rows spec_keeps_def book_defs
          empty_view_def)
  have empty: "df_empty empty_view"
    by (simp add: df_empty_def empty_view_facts)
  have guarded: "average_price_by_type empty_view = Inr [Info no_data]"
    "top_authors empty_view = Inr [Info no_data]"
    "average_rating_by_genre empty_view = Inr [Info no_data]"
    using empty
    by (simp_all add: average_price_by_type_def top_authors_def average_rating_by_genre_def)
  have summary: "price_summary empty_view =
     Inr [Write_describe \<lparr>stat_count = 0, stat_mean = None, stat_std = None, stat_min = None,
            stat_25 = None, stat_50 = None, stat_75 = None, stat_max = None\<rparr>]"
    by (simp add: price_summary_def getitem_num_def empty_view_facts plain_columns_def
          describe_def series_count_def series_mean_def series_std_def series_min_def
          series_max_def series_quantile_def)
  have heatmap: "correlation_tab empty_view =
     Inr [Pyplot (Heatmap ''Correlation Heatmap'' nan_matrix),
          Write_text ''**Correlation Matrix (table):**'', Dataframe_corr nan_matrix]"
    by (simp add: correlation_tab_def correlation_matrix_def getitem_cols_def
          existing_numeric_def numeric_cols_def empty_view_facts plain_columns_def corr_def
          pearson_def nan_matrix_def nan_row_def)
  from view empty guarded summary heatmap show ?thesis by simp
qed

section \<open>Means by group\<close>


lemma set_dropna: "set (dropna s) = {x. Some x \<in> set s}"
  by (induction s rule: dropna.induct) auto

lemma set_unique: "set (unique xs) = set xs"
  by (induction xs rule: unique.induct) auto

lemma distinct_unique: "distinct (unique xs)"
  by (induction xs rule: unique.induct) (auto simp: set_unique)

lemma group_cells:
  "map snd (filter (\<lambda>(k', v). k' = Some k) (zip (map f rs) (map g rs)))
     = map g (filter (\<lambda>r. f r = Some k) rs)"
  by (induction rs) simp_all

lemma groupby_mean_eq:
  assumes "col \<in> set (columns df)" "value_col \<in> set (columns df)"
  shows "groupby_mean df col value_col =
           Inr (map (\<lambda>k. (k, series_mean (map (num_field value_col) (group_rows df col k))))
                  (sort (unique (dropna (map (str_field col) (rows df))))))"
  using assms
  by (simp add: groupby_mean_def getitem_str_def getitem_num_def group_cells group_rows_def)

lemma sort_values_desc_set: "set (sort_values_desc xs) = set xs"
  by (auto simp: sort_values_desc_def)

lemma sort_values_desc_distinct:
  assumes "distinct (map fst xs)"
  shows "distinct (map fst (sort_values_desc xs))"
proof -
  from assms have d: "distinct xs" and i: "inj_on fst (set xs)"
    by (simp_all add: distinct_map)
  have "distinct (sort_values_desc xs)"
    using d by (auto simp: sort_values_desc_def)
  moreover have "inj_on fst (set (sort_values_desc xs))"
    using i by (simp add: sort_values_desc_set)
  ultimately show ?thesis by (simp add: distinct_map)
qed

lemma dropna_append: "dropna (xs @ ys) = dropna xs @ dropna ys"
  by (induction xs rule: dropna.induct) simp_all

lemma dropna_all_None: "\<forall>x \<in> set xs. x = None \<Longrightarrow> dropna xs = []"
  by (induction xs rule: dropna.induct) simp_all

lemma sorted_desc_keys:
  assumes "\<forall>e \<in> set ys. snd e \<noteq> None"
    and "sorted (map (\<lambda>(k, m). case m of None \<Rightarrow> (0::real) | Some x \<Rightarrow> - x) ys)"
  shows "sorted_wrt (\<lambda>x y. y \<le> x) (dropna (map snd ys))"
  using assms
proof (induction ys)
  case Nil
  then show ?case by simp
next
  case (Cons e ys)
  obtain k x where e: "e = (k, Some x)"
    using Cons.prems(1) by (cases e) auto
  have "y \<le> x" if "y \<in> set (dropna (map snd ys))" for y
  proof -
    from that obtain k' where "(k', Some y) \<in> set ys"
      by (auto simp: set_dropna)
    moreover have "\<forall>z \<in> set ys. - x \<le> (case z of (k, m) \<Rightarrow> (case m of None \<Rightarrow> 0 | Some x \<Rightarrow> - x))"
      using Cons.prems(2) e by simp
    ultimately have "- x \<le> - y" by fastforce
    then show ?thesis by simp
  qed
  with Cons e show ?case by simp
qed

lemma sort_values_desc_sorted:
  "sorted_wrt (\<lambda>x y. y \<le> x) (dropna (map snd (sort_values_desc xs)))"
proof -
  let ?key = "\<lambda>(k, m). case m of None \<Rightarrow> (0::real) | Some x \<Rightarrow> - x"
  let ?A = "sort_key ?key (filter (\<lambda>(k, m). m \<noteq> None) xs)"
  have "sorted_wrt (\<lambda>x y. y \<le> x) (dropna (map snd ?A))"
    by (rule sorted_desc_keys) auto
  moreover have "dropna (map snd (filter (\<lambda>(k, m). m = None) xs)) = []"
    by (rule dropna_all_None) auto
  ultimately show ?thesis
    by (simp add: sort_values_desc_def dropna_append)
qed

lemma sort_values_desc_nan_last:
  "filter (\<lambda>e. snd e \<noteq> None) (sort_values_desc xs) @ filter (\<lambda>e. snd e = None) (sort_values_desc xs)
     = sort_values_desc xs"
proof -
  let ?key = "\<lambda>(k, m). case m of None \<Rightarrow> (0::real) | Some x \<Rightarrow> - x"
  let ?A = "sort_key ?key (filter (\<lambda>(k, m). m \<noteq> None) xs)"
  let ?B = "filter (\<lambda>(k, m). m = None) xs"
  have "filter (\<lambda>e. snd e \<noteq> None) ?A = ?A" "filter (\<lambda>e. snd e = None) ?A = []"
    "filter (\<lambda>e. snd e \<noteq> None) ?B = []" "filter (\<lambda>e. snd e = None) ?B = ?B"
    by (auto simp: filter_empty_conv filter_id_conv intro: filter_cong)
  then show ?thesis
    by (simp add: sort_values_desc_def)
qed

lemma length_dropna_full: "None \<notin> set s \<Longrightarrow> length (dropna s) = length s"
  by (induction s rule: dropna.induct) simp_all

lemma group_rows_nonempty:
  "group_rows df col g \<noteq> [] \<longleftrightarrow> Some g \<in> set (map (str_field col) (rows df))"
  by (force simp: group_rows_def filter_empty_conv)

text \<open>
  Claim C3. For a view that has both columns, \<open>mean_by_group\<close> raises no error and
  lists every label that occurs in the grouping column exactly once, and no other label,
  so a group without rows is not listed. A row belongs to the group of a label when its
  grouping cell is exactly the label. The value listed for a label is the arithmetic mean
  of the value column over the rows of its group, taken over the cells that are present:
  when no cell of the group is missing it is the sum of the group's cells over the number
  of its rows, and it is missing only when every cell of the group is. The entries with a
  mean are listed in descending order of the mean; an entry without one comes after them.
\<close>

theorem mean_by_group_result:
  assumes "col \<in> set (columns fv)" and "value_col \<in> set (columns fv)"
  shows "\<exists>out. mean_by_group fv col value_col = Inr out
     \<and> distinct (map fst out)
     \<and> (\<forall>g. g \<in> set (map fst out) \<longleftrightarrow> group_rows fv col g \<noteq> [])
     \<and> (\<forall>(g, m) \<in> set out.
          m = (let xs = dropna (map (num_field value_col) (group_rows fv col g))
               in if xs = [] then None else Some (sum_list xs / real (length xs))))
     \<and> (\<forall>(g, m) \<in> set out.
          None \<notin> set (map (num_field value_col) (group_rows fv col g)) \<longrightarrow>
          m = Some (sum_list (dropna (map (num_field value_col) (group_rows fv col g)))
                    / real (length (group_rows fv col g))))
     \<and> sorted_wrt (\<lambda>x y. y \<le> x) (dropna (map snd out))
     \<and> filter (\<lambda>e. snd e \<noteq> None) out @ filter (\<lambda>e. snd e = None) out = out"
proof -
  let ?cells = "\<lambda>g. map (num_field value_col) (group_rows fv col g)"
  let ?keys = "sort (unique (dropna (map (str_field col) (rows fv))))"
  let ?G = "map (\<lambda>k. (k, series_mean (?cells k))) ?keys"
  let ?out = "sort_values_desc ?G"
  have result: "mean_by_group fv col value_col = Inr ?out"
    using assms by (simp add: mean_by_group_def groupby_mean_eq)
  have fst_G: "map fst ?G = ?keys"
    by (simp add: comp_def)
  have labels: "set (map fst ?out) = set ?keys"
  proof -
    have "set (map fst ?out) = fst ` set ?G"
      by (simp add: sort_values_desc_set)
    also have "\<dots> = set (map fst ?G)"
      by (simp only: set_map)
    finally show ?thesis
      by (simp only: fst_G)
  qed
  have "distinct ?keys"
    by (simp add: distinct_unique)
  then have once: "distinct (map fst ?out)"
    using fst_G by (intro sort_values_desc_distinct) (simp del: map_map)
  have occurring: "g \<in> set (map fst ?out) \<longleftrightarrow> group_rows fv col g \<noteq> []" for g
    unfolding labels group_rows_nonempty by (simp add: set_unique set_dropna)
  have entry: "m = series_mean (?cells g)" if "(g, m) \<in> set ?out" for g m
    using that by (auto simp: sort_values_desc_set)
  have mean: "m = (let xs = dropna (?cells g)
                   in if xs = [] then None else Some (sum_list xs / real (length xs)))"
    if "(g, m) \<in> set ?out" for g m
    using entry [OF that] by (simp add: series_mean_def)
  have full: "m = Some (sum_list (dropna (?cells g)) / real (length (group_rows fv col g)))"
    if "(g, m) \<in> set ?out" and "None \<notin> set (?cells g)" for g m
  proof -
    have "g \<in> set (map fst ?out)"
      using that(1) by force
    then have "group_rows fv col g \<noteq> []"
      using occurring by blast
    moreover have "length (dropna (?cells g)) = length (group_rows fv col g)"
      using length_dropna_full [OF that(2)] by simp
    ultimately have "dropna (?cells g) \<noteq> []"
      by (metis length_0_conv)
    then show ?thesis
      using mean [OF that(1)] \<open>length (dropna (?cells g)) = length (group_rows fv col g)\<close>
      by (simp add: Let_def)
  qed
  show ?thesis
    using result once occurring mean full sort_values_desc_sorted [of ?G]
      sort_values_desc_nan_last [of ?G]
    by (intro exI [of _ ?out]) blast
qed

theorem mean_by_group_result_witness:
  "''Type'' \<in> set (columns books5) \<and> ''Rating'' \<in> set (columns books5) \<and>
   mean_by_group books5 ''Type'' ''Rating''
     = Inr [(''Fiction'', Some (9 / 2)), (''Nonfiction'', Some (5 / 2))]"
proof -
  have cols: "''Type'' \<in> set (columns books5)" "''Rating'' \<in> set (columns books5)"
    by (simp_all add: books5_def plain_columns_def)
  have means: "mean_by_group books5 ''Type'' ''Rating''
     = Inr [(''Fiction'', Some (9 / 2)), (''Nonfiction'', Some (5 / 2))]"
    by (simp add: mean_by_group_def groupby_mean_def getitem_str_def getitem_num_def books5_def
        plain_columns_def str_field_def num_field_def book_defs series_mean_def
        sort_values_desc_def del: not_None_eq)
  from mean_by_group_result [OF cols] obtain out
    where "mean_by_group books5 ''Type'' ''Rating'' = Inr out"
      and "sorted_wrt (\<lambda>x y. y \<le> x) (dropna (map snd out))"
    by blast
  with means cols show ?thesis by simp
qed

text \<open>
  Missing cells of the value column are skipped: \<open>books_price_gaps\<close> is a filtered
  view (the pipeline returns it unchanged), its Fiction group has the prices 10 and NaN
  and is listed with mean 10, and its Nonfiction group has only a missing price and is
  listed last, without a mean.
\<close>

lemma mean_by_group_skips_missing:
  "apply_filters books_price_gaps [''Fiction'', ''Nonfiction''] [''Arts'', ''Law''] (3, 5) False
     = Inr books_price_gaps \<and>
   mean_by_group books_price_gaps ''Type'' ''Price''
     = Inr [(''Fiction'', Some 10), (''Nonfiction'', None)]"
proof -
  have cols: "has_filter_columns books_price_gaps"
    by (simp add: has_filter_columns_def books_price_gaps_def plain_columns_def)
  have view: "apply_filters books_price_gaps [''Fiction'', ''Nonfiction''] [''Arts'', ''Law''] (3, 5) False
     = Inr books_price_gaps"
    by (subst apply_filters_eq [OF cols]) (simp add: books_price_gaps_def spec_keeps_def book_defs)
  have means: "mean_by_group books_price_gaps ''Type'' ''Price''
     = Inr [(''Fiction'', Some 10), (''Nonfiction'', None)]"
    by (simp add: mean_by_group_def groupby_mean_def getitem_str_def getitem_num_def
        books_price_gaps_def plain_columns_def str_field_def num_field_def book_defs
        series_mean_def sort_values_desc_def del: not_None_eq)
  from view means show ?thesis by simp
qed

section \<open>Value counts\<close>


lemma first_index_Cons:
  "first_index (y # ys) a = (if y = a then 0 else Suc (first_index ys a))"
  by (simp add: first_index_def)

lemma first_index_Nil: "first_index [] a = 0"
  by (simp add: first_index_def)

lemma first_index_filter_mono:
  assumes "P a" "P b" "first_index (filter P xs) a < first_index (filter P xs) b"
  shows "first_index xs a < first_index xs b"
  using assms by (induction xs) (auto simp: first_index_Cons first_index_Nil split: if_splits)

lemma first_index_dropna_mono:
  assumes "first_index (dropna s) a < first_index (dropna s) b"
  shows "first_index s (Some a) < first_index s (Some b)"
  using assms
  by (induction s rule: dropna.induct) (auto simp: first_index_Cons first_index_Nil split: if_splits)

lemma unique_first_index:
  "sorted_wrt (\<lambda>a b. first_index xs a < first_index xs b) (unique xs)"
proof (induction xs rule: unique.induct)
  case 1
  then show ?case by simp
next
  case (2 x xs)
  let ?rest = "filter (\<lambda>y. y \<noteq> x) xs"
  have "sorted_wrt (\<lambda>a b. first_index (x # xs) a < first_index (x # xs) b) (unique ?rest)"
  proof (rule sorted_wrt_mono_rel [OF _ "2.IH"])
    fix a b
    assume a: "a \<in> set (unique ?rest)" and b: "b \<in> set (unique ?rest)"
      and lt: "first_index ?rest a < first_index ?rest b"
    from a b have "a \<noteq> x" "b \<noteq> x"
      by (auto simp: set_unique)
    with first_index_filter_mono [of "\<lambda>y. y \<noteq> x" a b xs] lt
    show "first_index (x # xs) a < first_index (x # xs) b"
      by (simp add: first_index_Cons)
  qed
  moreover have "first_index (x # xs) x < first_index (x # xs) b" if "b \<in> set (unique ?rest)" for b
    using that by (auto simp: set_unique first_index_Cons)
  ultimately show ?case by simp
qed

lemma insort_key_ties:
  fixes f :: "'a \<Rightarrow> 'k::linorder"
  assumes "sorted_wrt (\<lambda>a b. f a < f b \<or> (f a = f b \<and> Q a b)) ys"
    and "\<forall>y \<in> set ys. Q x y"
  shows "sorted_wrt (\<lambda>a b. f a < f b \<or> (f a = f b \<and> Q a b)) (insort_key f x ys)"
  using assms
proof (induction ys)
  case Nil
  then show ?case by simp
next
  case (Cons y ys)
  show ?case
  proof (cases "f x \<le> f y")
    case True
    have "f x < f z \<or> (f x = f z \<and> Q x z)" if "z \<in> set (y # ys)" for z
    proof -
      have "f y \<le> f z"
        using that Cons.prems(1) by auto
      with True have "f x \<le> f z" by simp
      moreover have "Q x z" using that Cons.prems(2) by auto
      ultimately show ?thesis by auto
    qed
    with True Cons.prems(1) show ?thesis by simp
  next
    case False
    then have "f y < f x" by simp
    moreover have "sorted_wrt (\<lambda>a b. f a < f b \<or> (f a = f b \<and> Q a b)) (insort_key f x ys)"
      using Cons by simp
    ultimately show ?thesis
      using False Cons.prems(1) by (auto simp: set_insort_key)
  qed
qed

lemma sort_key_ties:
  fixes f :: "'a \<Rightarrow> 'k::linorder"
  assumes "sorted_wrt Q xs"
  shows "sorted_wrt (\<lambda>a b. f a < f b \<or> (f a = f b \<and> Q a b)) (sort_key f xs)"
  using assms
proof (induction xs)
  case Nil
  then show ?case by simp
next
  case (Cons x xs)
  then have "sorted_wrt (\<lambda>a b. f a < f b \<or> (f a = f b \<and> Q a b)) (sort_key f xs)"
    and "\<forall>y \<in> set (sort_key f xs). Q x y"
    by simp_all
  then show ?case
    by (simp add: insort_key_ties)
qed

lemma count_list_dropna:
  "count_list (dropna (map f rs)) a = length (filter (\<lambda>r. f r = Some a) rs)"
proof (induction rs)
  case Nil
  then show ?case by simp
next
  case (Cons r rs)
  then show ?case by (cases "f r") auto
qed

lemma value_counts_sorted:
  "sorted_wrt (\<lambda>x y. snd y < snd x \<or>
       (snd x = snd y \<and> first_index s (Some (fst x)) < first_index s (Some (fst y))))
     (value_counts s)"
proof -
  let ?xs = "dropna s"
  let ?Q = "\<lambda>x y :: 'a \<times> nat. first_index s (Some (fst x)) < first_index s (Some (fst y))"
  let ?key = "(\<lambda>(k, c). - int c) :: 'a \<times> nat \<Rightarrow> int"
  have "sorted_wrt (\<lambda>a b. first_index s (Some a) < first_index s (Some b)) (unique ?xs)"
    by (rule sorted_wrt_mono_rel [OF _ unique_first_index]) (rule first_index_dropna_mono)
  then have "sorted_wrt ?Q (map (\<lambda>k. (k, count_list ?xs k)) (unique ?xs))"
    by (simp add: sorted_wrt_map)
  then have "sorted_wrt (\<lambda>a b. ?key a < ?key b \<or> (?key a = ?key b \<and> ?Q a b))
               (sort_key ?key (map (\<lambda>k. (k, count_list ?xs k)) (unique ?xs)))"
    by (rule sort_key_ties)
  then show ?thesis
    by (simp add: value_counts_def Let_def case_prod_unfold)
qed

lemma value_counts_set:
  "set (value_counts s) = (\<lambda>k. (k, count_list (dropna s) k)) ` {x. Some x \<in> set s}"
  by (simp add: value_counts_def Let_def set_unique set_dropna)

lemma value_counts_distinct: "distinct (map fst (value_counts s))"
proof -
  have "distinct (sort_key f (map (\<lambda>k. (k, g k)) ys))" if "distinct ys"
    for f :: "'a \<times> nat \<Rightarrow> int" and g and ys :: "'a list"
    using that by (simp add: distinct_map inj_on_def)
  moreover have "inj_on fst (set (value_counts s))"
    by (auto simp: value_counts_set inj_on_def)
  ultimately show ?thesis
    by (simp add: distinct_map value_counts_def Let_def distinct_unique)
qed

text \<open>
  Claim C4. For a view with the column, \<open>top_value_counts\<close> raises no error and
  returns at most \<open>n\<close> entries (10 for the authors of lines 195-199), each a value of the
  column with the number of rows that hold it, no value twice; the counts are
  non-increasing along the list, and of two entries with the same count the one listed
  first is the one whose value occurs first in the view.
\<close>

theorem top_value_counts_result:
  assumes "col \<in> set (columns fv)"
  shows "\<exists>out. top_value_counts fv col n = Inr out
     \<and> length out \<le> n
     \<and> distinct (map fst out)
     \<and> (\<forall>(a, c) \<in> set out. c = length (group_rows fv col a) \<and> 0 < c)
     \<and> sorted_wrt (\<lambda>x y. snd y \<le> snd x) out
     \<and> sorted_wrt (\<lambda>x y. snd x = snd y \<longrightarrow>
            first_index (map (str_field col) (rows fv)) (Some (fst x))
              < first_index (map (str_field col) (rows fv)) (Some (fst y))) out"
proof -
  let ?s = "map (str_field col) (rows fv)"
  let ?out = "take n (value_counts ?s)"
  let ?R = "\<lambda>x y :: string \<times> nat. snd y < snd x \<or>
       (snd x = snd y \<and> first_index ?s (Some (fst x)) < first_index ?s (Some (fst y)))"
  have result: "top_value_counts fv col n = Inr ?out"
    using assms by (simp add: top_value_counts_def getitem_str_def head_def)
  have ordered: "sorted_wrt ?R ?out"
    using value_counts_sorted [of ?s] by (rule sorted_wrt_take)
  have by_count: "sorted_wrt (\<lambda>x y. snd y \<le> snd x) ?out"
    by (rule sorted_wrt_mono_rel [OF _ ordered]) auto
  have ties: "sorted_wrt (\<lambda>x y. snd x = snd y \<longrightarrow>
            first_index ?s (Some (fst x)) < first_index ?s (Some (fst y))) ?out"
    by (rule sorted_wrt_mono_rel [OF _ ordered]) auto
  have once: "distinct (map fst ?out)"
    using value_counts_distinct [of ?s] by (simp add: take_map [symmetric])
  have counts: "c = length (group_rows fv col a) \<and> 0 < c" if "(a, c) \<in> set ?out" for a c
  proof -
    from that have "(a, c) \<in> set (value_counts ?s)"
      by (rule in_set_takeD)
    then have c: "c = count_list (dropna ?s) a" and a: "Some a \<in> set ?s"
      by (auto simp: value_counts_set)
    from c have "c = length (group_rows fv col a)"
      by (simp add: count_list_dropna group_rows_def)
    moreover from a have "group_rows fv col a \<noteq> []"
      by (simp add: group_rows_nonempty)
    ultimately show ?thesis by simp
  qed
  show ?thesis
    using result once counts by_count ties
    by (intro exI [of _ ?out]) auto
qed

theorem top_value_counts_result_witness:
  "''Author'' \<in> set (columns books5) \<and>
   top_value_counts books5 ''Author'' 10 = Inr [(''Ann'', 2), (''Bob'', 2), (''Cy'', 1)] \<and>
   first_index (map (str_field ''Author'') (rows books5)) (Some ''Ann'') = 0 \<and>
   first_index (map (str_field ''Author'') (rows books5)) (Some ''Bob'') = 1"
proof -
  have col: "''Author'' \<in> set (columns books5)"
    by (simp add: books5_def plain_columns_def)
  have counts: "top_value_counts books5 ''Author'' 10 = Inr [(''Ann'', 2), (''Bob'', 2), (''Cy'', 1)]"
    by (simp add: top_value_counts_def getitem_str_def head_def value_counts_def books5_def
        plain_columns_def str_field_def book_defs)
  have first: "first_index (map (str_field ''Author'') (rows books5)) (Some ''Ann'') = 0"
    "first_index (map (str_field ''Author'') (rows books5)) (Some ''Bob'') = 1"
    by (simp_all add: first_index_def example_rows str_field_def book_defs)
  from top_value_counts_result [OF col, of 10] obtain out
    where "top_value_counts books5 ''Author'' 10 = Inr out" and "length out \<le> 10"
    by blast
  with col counts first show ?thesis by simp
qed

section \<open>The correlation matrix\<close>













end
